theory Spec2Isabelle
  imports Main "HOL-Library.Char_ord" "HOL-Library.List_Lexorder" "HOL-Library.Multiset"
begin

section \<open>Node.js compatibility mode resolution\<close>

text \<open>
  The development embeds \<^verbatim>\<open>getNodeCompat\<close>, \<^verbatim>\<open>computeWorkerdCompatibilityFlags\<close> and
  the class \<^verbatim>\<open>Flags\<close> of wrangler's Node.js compatibility module.

  JavaScript strings are modelled as \<^typ>\<open>string\<close>; the relational operator \<^verbatim>\<open>>=\<close> on two
  strings compares them code unit by code unit, which is the lexicographic order on
  character lists (\<open>HOL-Library.List_Lexorder\<close> over \<open>HOL-Library.Char_ord\<close>).
  \<^verbatim>\<open>Array.prototype.includes\<close> on an array of strings is membership in the list.
\<close>

subsection \<open>Data\<close>

text \<open>\<^verbatim>\<open>type NodeJSCompatMode = "legacy" | "als" | "v1" | "v2" | null\<close>\<close>

datatype NodeJSCompatMode = Legacy | Als | V1 | V2 | Null

text \<open>
  \<^verbatim>\<open>type Flag = { value: boolean; impliedByAfterDate: ... }\<close>: a \<^verbatim>\<open>Flag\<close> is a mutable
  object. Objects live in a store; a reference is an address, the store keeps the
  \<^verbatim>\<open>value\<close> field of every object and the next unused address. The method
  \<^verbatim>\<open>impliedByAfterDate\<close> of an object is the closure over the object itself and over the
  \<^verbatim>\<open>Flags\<close> instance that made it; it is the function \<open>impliedByAfterDate\<close> below, applied
  to these two.
\<close>

type_synonym ref = nat

record heap =
  flagValue :: "ref \<Rightarrow> bool"
  nextRef :: ref

definition emptyHeap :: heap where
  "emptyHeap = \<lparr>flagValue = (\<lambda>_. False), nextRef = 0\<rparr>"

text \<open>\<^verbatim>\<open>class Flags { constructor(private flags: string[], private compatibilityDate: string) }\<close>\<close>

record Flags =
  flags :: "string list"
  compatibilityDate :: string

text \<open>The object returned by \<^verbatim>\<open>computeWorkerdCompatibilityFlags\<close>, and the one returned by
  \<^verbatim>\<open>getNodeCompat\<close>, which has the same four fields and \<^verbatim>\<open>mode\<close>.\<close>

record WorkerdCompatibilityFlags =
  hasNodejsAlsFlag :: bool
  hasNodejsCompatFlag :: bool
  hasNodejsCompatV2Flag :: bool
  hasExperimentalNodejsCompatV2Flag :: bool

record NodeCompat = WorkerdCompatibilityFlags +
  mode :: NodeJSCompatMode

text \<open>\<^verbatim>\<open>opts?: { nodeCompat?: boolean }\<close>: the argument and its field may each be absent.\<close>

record Opts =
  nodeCompat :: "bool option"

subsection \<open>The class \<^verbatim>\<open>Flags\<close>\<close>

text \<open>
  \<^verbatim>\<open>get(name)\<close> allocates a new \<^verbatim>\<open>Flag\<close> object whose \<^verbatim>\<open>value\<close> is
  \<^verbatim>\<open>this.flags.includes(name) && !this.flags.includes(`no_${name}`)\<close> and returns the
  reference to it.
\<close>

definition Flags_get :: "Flags \<Rightarrow> string \<Rightarrow> heap \<Rightarrow> ref \<times> heap" where
  "Flags_get this name h =
     (let noFlagName = ''no_'' @ name;
          v = (name \<in> set (flags this) \<and> \<not> noFlagName \<in> set (flags this));
          flag = nextRef h
      in (flag, h\<lparr>flagValue := (flagValue h)(flag := v), nextRef := Suc flag\<rparr>))"

text \<open>
  \<^verbatim>\<open>flag.value ||= other.value && date >= this.compatibilityDate; return flag;\<close>
  The assignment happens only when \<^verbatim>\<open>flag.value\<close> is false. Here \<open>date\<close> is the
  argument of the method and \<open>compatibilityDate this\<close> the date of the \<^verbatim>\<open>Flags\<close> instance.
\<close>

definition impliedByAfterDate :: "Flags \<Rightarrow> ref \<Rightarrow> ref \<Rightarrow> string \<Rightarrow> heap \<Rightarrow> ref \<times> heap" where
  "impliedByAfterDate this flag other date h =
     (if flagValue h flag then (flag, h)
      else (flag, h\<lparr>flagValue := (flagValue h)
                       (flag := (flagValue h other \<and> date \<ge> compatibilityDate this))\<rparr>))"

subsection \<open>\<^verbatim>\<open>computeWorkerdCompatibilityFlags\<close> and \<^verbatim>\<open>getNodeCompat\<close>\<close>

text \<open>
  The statements of the source in their order of evaluation: the \<^verbatim>\<open>Flags\<close> instance,
  \<^verbatim>\<open>flags.get("nodejs_compat")\<close>, then the properties of the object literal from top to
  bottom. The \<^verbatim>\<open>Flag\<close> objects are local to the call and only booleans are returned, so
  the function takes the store it starts in and returns the object of booleans.
\<close>

definition computeWorkerdCompatibilityFlags ::
    "string list \<Rightarrow> string \<Rightarrow> heap \<Rightarrow> WorkerdCompatibilityFlags" where
  "computeWorkerdCompatibilityFlags compatibilityFlags compatibilityDateStr h0 =
     (let this = \<lparr>flags = compatibilityFlags, compatibilityDate = compatibilityDateStr\<rparr>;
          (nodejsCompatFlag, h1) = Flags_get this ''nodejs_compat'' h0;
          (alsFlag, h2) = Flags_get this ''nodejs_als'' h1;
          als = flagValue h2 alsFlag;
          compat = flagValue h2 nodejsCompatFlag;
          (v2Flag, h3) = Flags_get this ''nodejs_compat_v2'' h2;
          (implied, h4) = impliedByAfterDate this v2Flag nodejsCompatFlag ''2024-09-23'' h3;
          v2 = flagValue h4 implied;
          experimental = (''experimental:nodejs_compat_v2'' \<in> set compatibilityFlags)
      in \<lparr>hasNodejsAlsFlag = als,
          hasNodejsCompatFlag = compat,
          hasNodejsCompatV2Flag = v2,
          hasExperimentalNodejsCompatV2Flag = experimental\<rparr>)"

text \<open>
  \<^verbatim>\<open>getNodeCompat(compatibilityDate = "2000-01-01", compatibilityFlags, opts?)\<close>:
  an absent date (\<open>None\<close>) takes the default; \<^verbatim>\<open>const { nodeCompat = false } = opts ?? {}\<close>
  and \<^verbatim>\<open>legacy = nodeCompat === true\<close>.
\<close>

definition getNodeCompat ::
    "string option \<Rightarrow> string list \<Rightarrow> Opts option \<Rightarrow> heap \<Rightarrow> NodeCompat" where
  "getNodeCompat compatibilityDateArg compatibilityFlags opts h =
     (let compatibilityDateStr =
            (case compatibilityDateArg of None \<Rightarrow> ''2000-01-01'' | Some d \<Rightarrow> d);
          nodeCompatOpt =
            (case opts of None \<Rightarrow> False
             | Some os \<Rightarrow> (case nodeCompat os of None \<Rightarrow> False | Some b \<Rightarrow> b));
          r = computeWorkerdCompatibilityFlags compatibilityFlags compatibilityDateStr h;
          legacy = (nodeCompatOpt = True);
          m = (if hasNodejsCompatV2Flag r then V2
               else if hasNodejsCompatFlag r then V1
               else if hasNodejsAlsFlag r then Als
               else if legacy then Legacy
               else Null)
      in \<lparr>hasNodejsAlsFlag = hasNodejsAlsFlag r,
          hasNodejsCompatFlag = hasNodejsCompatFlag r,
          hasNodejsCompatV2Flag = hasNodejsCompatV2Flag r,
          hasExperimentalNodejsCompatV2Flag = hasExperimentalNodejsCompatV2Flag r,
          mode = m\<rparr>)"

subsection \<open>The two-step reading of the flag rules\<close>

text \<open>
  The pure definition the design notes ask for, written from their words: the base
  presence of a flag name (the token occurs and its negation does not), then one
  implication, wired for \<^verbatim>\<open>nodejs_compat_v2\<close> only, from the base presence of
  \<^verbatim>\<open>nodejs_compat\<close> and the date condition of the call site, which compares the
  threshold \<^verbatim>\<open>"2024-09-23"\<close> on the left with the compatibility date on the right.
\<close>

definition baseValue :: "string list \<Rightarrow> string \<Rightarrow> bool" where
  "baseValue fs X = (X \<in> set fs \<and> \<not> (''no_'' @ X) \<in> set fs)"

definition resolvedFlag :: "string \<Rightarrow> string list \<Rightarrow> string \<Rightarrow> bool" where
  "resolvedFlag d fs X =
     (baseValue fs X \<or>
      (X = ''nodejs_compat_v2'' \<and> baseValue fs ''nodejs_compat'' \<and> ''2024-09-23'' \<ge> d))"

section \<open>Properties\<close>

subsection \<open>The store operations\<close>

lemma Flags_get_ref: "fst (Flags_get this name h) = nextRef h"
  by (simp add: Flags_get_def Let_def)

lemma Flags_get_nextRef: "nextRef (snd (Flags_get this name h)) = Suc (nextRef h)"
  by (simp add: Flags_get_def Let_def)

lemma Flags_get_value:
  "flagValue (snd (Flags_get this name h)) (nextRef h) =
     (name \<in> set (flags this) \<and> (''no_'' @ name) \<notin> set (flags this))"
  by (simp add: Flags_get_def Let_def)

lemma Flags_get_frame:
  "a \<noteq> nextRef h \<Longrightarrow> flagValue (snd (Flags_get this name h)) a = flagValue h a"
  by (simp add: Flags_get_def Let_def)

lemma impliedByAfterDate_ref: "fst (impliedByAfterDate this flag other date h) = flag"
  by (simp add: impliedByAfterDate_def)

lemma impliedByAfterDate_value:
  "flagValue (snd (impliedByAfterDate this flag other date h)) flag =
     (flagValue h flag \<or> (flagValue h other \<and> date \<ge> compatibilityDate this))"
  by (simp add: impliedByAfterDate_def)

lemma impliedByAfterDate_frame:
  "a \<noteq> flag \<Longrightarrow> flagValue (snd (impliedByAfterDate this flag other date h)) a = flagValue h a"
  by (simp add: impliedByAfterDate_def)

subsection \<open>Closed forms\<close>

lemma computeWorkerdCompatibilityFlags_closed:
  "computeWorkerdCompatibilityFlags fs d h =
     \<lparr>hasNodejsAlsFlag = (''nodejs_als'' \<in> set fs \<and> ''no_nodejs_als'' \<notin> set fs),
      hasNodejsCompatFlag = (''nodejs_compat'' \<in> set fs \<and> ''no_nodejs_compat'' \<notin> set fs),
      hasNodejsCompatV2Flag =
        ((''nodejs_compat_v2'' \<in> set fs \<and> ''no_nodejs_compat_v2'' \<notin> set fs) \<or>
         ((''nodejs_compat'' \<in> set fs \<and> ''no_nodejs_compat'' \<notin> set fs) \<and> ''2024-09-23'' \<ge> d)),
      hasExperimentalNodejsCompatV2Flag = (''experimental:nodejs_compat_v2'' \<in> set fs)\<rparr>"
proof -
  define this where "this = \<lparr>flags = fs, compatibilityDate = d\<rparr>"
  define h1 where "h1 = snd (Flags_get this ''nodejs_compat'' h)"
  define h2 where "h2 = snd (Flags_get this ''nodejs_als'' h1)"
  define h3 where "h3 = snd (Flags_get this ''nodejs_compat_v2'' h2)"
  define h4 where "h4 = snd (impliedByAfterDate this (nextRef h2) (nextRef h) ''2024-09-23'' h3)"
  have n1: "nextRef h1 = Suc (nextRef h)"
    by (simp add: h1_def Flags_get_nextRef)
  have n2: "nextRef h2 = Suc (Suc (nextRef h))"
    by (simp add: h2_def Flags_get_nextRef n1)
  have compat1: "flagValue h1 (nextRef h) =
      (''nodejs_compat'' \<in> set fs \<and> ''no_nodejs_compat'' \<notin> set fs)"
    by (simp add: h1_def Flags_get_value this_def)
  have compat2: "flagValue h2 (nextRef h) = flagValue h1 (nextRef h)"
    by (simp add: h2_def Flags_get_frame n1)
  have compat3: "flagValue h3 (nextRef h) = flagValue h2 (nextRef h)"
    by (simp add: h3_def Flags_get_frame n2)
  have als2: "flagValue h2 (nextRef h1) =
      (''nodejs_als'' \<in> set fs \<and> ''no_nodejs_als'' \<notin> set fs)"
    by (simp add: h2_def Flags_get_value this_def)
  have v23: "flagValue h3 (nextRef h2) =
      (''nodejs_compat_v2'' \<in> set fs \<and> ''no_nodejs_compat_v2'' \<notin> set fs)"
    by (simp add: h3_def Flags_get_value this_def)
  have v24: "flagValue h4 (nextRef h2) =
      (flagValue h3 (nextRef h2) \<or> (flagValue h3 (nextRef h) \<and> ''2024-09-23'' \<ge> d))"
    by (simp add: h4_def impliedByAfterDate_value this_def)
  have "computeWorkerdCompatibilityFlags fs d h =
     \<lparr>hasNodejsAlsFlag = flagValue h2 (nextRef h1),
      hasNodejsCompatFlag = flagValue h2 (nextRef h),
      hasNodejsCompatV2Flag = flagValue h4 (nextRef h2),
      hasExperimentalNodejsCompatV2Flag = (''experimental:nodejs_compat_v2'' \<in> set fs)\<rparr>"
    unfolding computeWorkerdCompatibilityFlags_def Let_def split_beta
      Flags_get_ref impliedByAfterDate_ref
    by (simp add: this_def h1_def h2_def h3_def h4_def)
  then show ?thesis
    by (simp add: v24 v23 compat3 compat2 compat1 als2)
qed

lemma getNodeCompat_closed:
  "getNodeCompat dArg fs opts h =
     (let d = (case dArg of None \<Rightarrow> ''2000-01-01'' | Some x \<Rightarrow> x);
          als = (''nodejs_als'' \<in> set fs \<and> ''no_nodejs_als'' \<notin> set fs);
          compat = (''nodejs_compat'' \<in> set fs \<and> ''no_nodejs_compat'' \<notin> set fs);
          v2 = ((''nodejs_compat_v2'' \<in> set fs \<and> ''no_nodejs_compat_v2'' \<notin> set fs) \<or>
                (compat \<and> ''2024-09-23'' \<ge> d));
          legacy = (case opts of None \<Rightarrow> False
                    | Some os \<Rightarrow> (case nodeCompat os of None \<Rightarrow> False | Some b \<Rightarrow> b))
      in \<lparr>hasNodejsAlsFlag = als,
          hasNodejsCompatFlag = compat,
          hasNodejsCompatV2Flag = v2,
          hasExperimentalNodejsCompatV2Flag = (''experimental:nodejs_compat_v2'' \<in> set fs),
          mode = (if v2 then V2 else if compat then V1 else if als then Als
                  else if legacy then Legacy else Null)\<rparr>)"
  by (simp add: getNodeCompat_def computeWorkerdCompatibilityFlags_closed Let_def)

lemma getNodeCompat_store_independent:
  "getNodeCompat dArg fs opts h = getNodeCompat dArg fs opts h'"
  by (simp add: getNodeCompat_closed)

lemma Int_eq_memD: "A \<inter> K = B \<inter> K \<Longrightarrow> t \<in> K \<Longrightarrow> (t \<in> A) = (t \<in> B)"
  by blast

subsection \<open>The date gate of the implication\<close>

text \<open>
  What the code computes for a list that holds \<^verbatim>\<open>nodejs_compat\<close> without its negation
  and no \<^verbatim>\<open>nodejs_compat_v2\<close> token: the mode is \<^verbatim>\<open>"v2"\<close> exactly when the threshold
  \<^verbatim>\<open>"2024-09-23"\<close> is at or after the compatibility date, and \<^verbatim>\<open>"v1"\<close> otherwise.
\<close>

lemma nodejs_compat_gate_as_coded:
  assumes "''nodejs_compat'' \<in> set fs" and "''no_nodejs_compat'' \<notin> set fs"
    and "''nodejs_compat_v2'' \<notin> set fs"
  shows "mode (getNodeCompat (Some d) fs opts h) = (if d \<le> ''2024-09-23'' then V2 else V1)"
  using assms by (simp add: getNodeCompat_closed)

text \<open>
  C1 (the code departs from the claim). The claim says that a list with \<^verbatim>\<open>nodejs_compat\<close>
  alone gives \<^verbatim>\<open>"v1"\<close> on the day before the threshold and \<^verbatim>\<open>"v2"\<close> from the
  threshold on. The code compares the threshold with the compatibility date in the
  opposite direction: on \<^verbatim>\<open>"2024-09-22"\<close> it returns \<^verbatim>\<open>"v2"\<close>, and on
  \<^verbatim>\<open>"2024-09-24"\<close> it returns \<^verbatim>\<open>"v1"\<close>.
\<close>

theorem nodejs_compat_gate_at_neighbouring_dates:
  "mode (getNodeCompat (Some ''2024-09-22'') [''nodejs_compat'']
           (Some \<lparr>nodeCompat = Some False\<rparr>) emptyHeap) = V2 \<and>
   mode (getNodeCompat (Some ''2024-09-24'') [''nodejs_compat'']
           (Some \<lparr>nodeCompat = Some False\<rparr>) emptyHeap) = V1"
  by (simp add: getNodeCompat_closed)

text \<open>
  C2 (the code departs from the claim). With the date argument absent the default
  \<^verbatim>\<open>"2000-01-01"\<close> is used, and the claim says the implication is then inactive, so that
  \<^verbatim>\<open>nodejs_compat\<close> alone gives \<^verbatim>\<open>"v1"\<close>. The code returns \<^verbatim>\<open>"v2"\<close> there, the same as
  with \<^verbatim>\<open>"2000-01-01"\<close> passed explicitly.
\<close>

theorem default_date_nodejs_compat_mode:
  "getNodeCompat None [''nodejs_compat''] (Some \<lparr>nodeCompat = Some False\<rparr>) emptyHeap =
     getNodeCompat (Some ''2000-01-01'') [''nodejs_compat'']
       (Some \<lparr>nodeCompat = Some False\<rparr>) emptyHeap \<and>
   mode (getNodeCompat None [''nodejs_compat'']
           (Some \<lparr>nodeCompat = Some False\<rparr>) emptyHeap) = V2"
  by (simp add: getNodeCompat_closed)

subsection \<open>Negation\<close>

text \<open>
  C3, as stated, fails for \<^verbatim>\<open>nodejs_compat_v2\<close>: on the threshold date the list
  \<^verbatim>\<open>["nodejs_compat_v2", "no_nodejs_compat_v2", "nodejs_compat"]\<close> holds the flag and its
  negation, and the resolved \<^verbatim>\<open>nodejs_compat_v2\<close> flag is true, by the implication.
\<close>

theorem negation_wins_counterexample:
  "''nodejs_compat_v2'' \<in> set [''nodejs_compat_v2'', ''no_nodejs_compat_v2'', ''nodejs_compat''] \<and>
   ''no_nodejs_compat_v2'' \<in> set [''nodejs_compat_v2'', ''no_nodejs_compat_v2'', ''nodejs_compat''] \<and>
   hasNodejsCompatV2Flag
     (getNodeCompat (Some ''2024-09-23'')
        [''nodejs_compat_v2'', ''no_nodejs_compat_v2'', ''nodejs_compat'']
        (Some \<lparr>nodeCompat = Some False\<rparr>) emptyHeap) = True"
  by (simp add: getNodeCompat_closed)

text \<open>
  C3, amended. For every date, option and list: when the list holds \<^verbatim>\<open>nodejs_als\<close> and
  \<^verbatim>\<open>no_nodejs_als\<close>, the resolved \<^verbatim>\<open>nodejs_als\<close> flag is false; when it holds
  \<^verbatim>\<open>nodejs_compat\<close> and \<^verbatim>\<open>no_nodejs_compat\<close>, the resolved \<^verbatim>\<open>nodejs_compat\<close> flag is false
  and the mode is not \<^verbatim>\<open>"v1"\<close>; when it holds \<^verbatim>\<open>nodejs_compat_v2\<close> and
  \<^verbatim>\<open>no_nodejs_compat_v2\<close> and the resolved \<^verbatim>\<open>nodejs_compat\<close> flag is false, the resolved
  \<^verbatim>\<open>nodejs_compat_v2\<close> flag is false.
\<close>

theorem negation_wins_amended:
  "(''nodejs_als'' \<in> set fs \<and> ''no_nodejs_als'' \<in> set fs \<longrightarrow>
      \<not> hasNodejsAlsFlag (getNodeCompat dArg fs opts h)) \<and>
   (''nodejs_compat'' \<in> set fs \<and> ''no_nodejs_compat'' \<in> set fs \<longrightarrow>
      \<not> hasNodejsCompatFlag (getNodeCompat dArg fs opts h) \<and>
      mode (getNodeCompat dArg fs opts h) \<noteq> V1) \<and>
   (''nodejs_compat_v2'' \<in> set fs \<and> ''no_nodejs_compat_v2'' \<in> set fs \<and>
    \<not> hasNodejsCompatFlag (getNodeCompat dArg fs opts h) \<longrightarrow>
      \<not> hasNodejsCompatV2Flag (getNodeCompat dArg fs opts h))"
  by (simp add: getNodeCompat_closed Let_def)

theorem negation_wins_amended_witness:
  "''nodejs_als'' \<in> set [''no_nodejs_als'', ''nodejs_als'', ''nodejs_compat'',
       ''no_nodejs_compat'', ''nodejs_compat_v2'', ''no_nodejs_compat_v2''] \<and>
   \<not> hasNodejsAlsFlag (getNodeCompat (Some ''2024-09-23'')
      [''no_nodejs_als'', ''nodejs_als'', ''nodejs_compat'',
       ''no_nodejs_compat'', ''nodejs_compat_v2'', ''no_nodejs_compat_v2''] None emptyHeap) \<and>
   \<not> hasNodejsCompatFlag (getNodeCompat (Some ''2024-09-23'')
      [''no_nodejs_als'', ''nodejs_als'', ''nodejs_compat'',
       ''no_nodejs_compat'', ''nodejs_compat_v2'', ''no_nodejs_compat_v2''] None emptyHeap) \<and>
   mode (getNodeCompat (Some ''2024-09-23'')
      [''no_nodejs_als'', ''nodejs_als'', ''nodejs_compat'',
       ''no_nodejs_compat'', ''nodejs_compat_v2'', ''no_nodejs_compat_v2''] None emptyHeap) \<noteq> V1 \<and>
   \<not> hasNodejsCompatV2Flag (getNodeCompat (Some ''2024-09-23'')
      [''no_nodejs_als'', ''nodejs_als'', ''nodejs_compat'',
       ''no_nodejs_compat'', ''nodejs_compat_v2'', ''no_nodejs_compat_v2''] None emptyHeap)"
proof -
  let ?fs = "[''no_nodejs_als'', ''nodejs_als'', ''nodejs_compat'',
       ''no_nodejs_compat'', ''nodejs_compat_v2'', ''no_nodejs_compat_v2'']"
  note t = negation_wins_amended [of ?fs "Some ''2024-09-23''" None emptyHeap]
  have a: "''nodejs_als'' \<in> set ?fs \<and> ''no_nodejs_als'' \<in> set ?fs" by simp
  have c: "''nodejs_compat'' \<in> set ?fs \<and> ''no_nodejs_compat'' \<in> set ?fs" by simp
  have v: "''nodejs_compat_v2'' \<in> set ?fs \<and> ''no_nodejs_compat_v2'' \<in> set ?fs" by simp
  from t a have r1: "\<not> hasNodejsAlsFlag (getNodeCompat (Some ''2024-09-23'') ?fs None emptyHeap)"
    by blast
  from t c have r2: "\<not> hasNodejsCompatFlag (getNodeCompat (Some ''2024-09-23'') ?fs None emptyHeap)
      \<and> mode (getNodeCompat (Some ''2024-09-23'') ?fs None emptyHeap) \<noteq> V1"
    by blast
  from t v r2 have r3: "\<not> hasNodejsCompatV2Flag (getNodeCompat (Some ''2024-09-23'') ?fs None emptyHeap)"
    by blast
  from a r1 r2 r3 show ?thesis by blast
qed

subsection \<open>Mode selection\<close>

text \<open>
  C4. The mode is chosen by strict priority: \<^verbatim>\<open>"v2"\<close> when the resolved
  \<^verbatim>\<open>nodejs_compat_v2\<close> flag is true, else \<^verbatim>\<open>"v1"\<close> when the resolved \<^verbatim>\<open>nodejs_compat\<close>
  flag is true, else \<^verbatim>\<open>"als"\<close> when the resolved \<^verbatim>\<open>nodejs_als\<close> flag is true, else
  \<^verbatim>\<open>"legacy"\<close> when the option \<^verbatim>\<open>nodeCompat\<close> is true, else \<^verbatim>\<open>null\<close>; and on
  \<^verbatim>\<open>"2024-09-23"\<close> the list \<^verbatim>\<open>["nodejs_compat_v2", "nodejs_als"]\<close> gives \<^verbatim>\<open>"v2"\<close>.
\<close>

theorem mode_strict_priority:
  "mode (getNodeCompat dArg fs opts h) =
     (if hasNodejsCompatV2Flag (getNodeCompat dArg fs opts h) then V2
      else if hasNodejsCompatFlag (getNodeCompat dArg fs opts h) then V1
      else if hasNodejsAlsFlag (getNodeCompat dArg fs opts h) then Als
      else if (\<exists>os. opts = Some os \<and> nodeCompat os = Some True) then Legacy
      else Null) \<and>
   mode (getNodeCompat (Some ''2024-09-23'') [''nodejs_compat_v2'', ''nodejs_als'']
           (Some \<lparr>nodeCompat = Some False\<rparr>) h) = V2"
  by (auto simp add: getNodeCompat_closed Let_def split: option.splits)

theorem mode_strict_priority_witness:
  "mode (getNodeCompat (Some ''2024-09-30'') [''nodejs_als'', ''nodejs_compat'']
           (Some \<lparr>nodeCompat = Some True\<rparr>) emptyHeap) = V1"
  using mode_strict_priority [of "Some ''2024-09-30''" "[''nodejs_als'', ''nodejs_compat'']"
      "Some \<lparr>nodeCompat = Some True\<rparr>" emptyHeap]
  by (simp add: getNodeCompat_closed)

text \<open>
  C5. With an empty flag list the mode is \<^verbatim>\<open>"legacy"\<close> under \<^verbatim>\<open>nodeCompat: true\<close> and
  \<^verbatim>\<open>null\<close> under \<^verbatim>\<open>nodeCompat: false\<close>, for every date (given or absent); and whenever one
  of the three resolved flags is true the mode is not \<^verbatim>\<open>"legacy"\<close>, whatever the option.
\<close>

theorem legacy_only_as_fallback:
  "mode (getNodeCompat dArg [] (Some \<lparr>nodeCompat = Some True\<rparr>) h) = Legacy \<and>
   mode (getNodeCompat dArg [] (Some \<lparr>nodeCompat = Some False\<rparr>) h) = Null \<and>
   (hasNodejsAlsFlag (getNodeCompat dArg fs opts h) \<or>
    hasNodejsCompatFlag (getNodeCompat dArg fs opts h) \<or>
    hasNodejsCompatV2Flag (getNodeCompat dArg fs opts h) \<longrightarrow>
      mode (getNodeCompat dArg fs opts h) \<noteq> Legacy)"
  by (simp add: getNodeCompat_closed Let_def)

theorem legacy_only_as_fallback_witness:
  "hasNodejsAlsFlag (getNodeCompat (Some ''2021-11-02'') [''nodejs_als'']
        (Some \<lparr>nodeCompat = Some True\<rparr>) emptyHeap) \<and>
   mode (getNodeCompat (Some ''2021-11-02'') [''nodejs_als'']
        (Some \<lparr>nodeCompat = Some True\<rparr>) emptyHeap) \<noteq> Legacy \<and>
   mode (getNodeCompat (Some ''2021-11-02'') [] (Some \<lparr>nodeCompat = Some True\<rparr>) emptyHeap) = Legacy"
proof -
  note t = legacy_only_as_fallback [of "Some ''2021-11-02''" emptyHeap "[''nodejs_als'']"
      "Some \<lparr>nodeCompat = Some True\<rparr>"]
  have a: "hasNodejsAlsFlag (getNodeCompat (Some ''2021-11-02'') [''nodejs_als'']
        (Some \<lparr>nodeCompat = Some True\<rparr>) emptyHeap)"
    by (simp add: getNodeCompat_closed)
  from t a show ?thesis by blast
qed

subsection \<open>Dependence on the flag list\<close>

text \<open>
  C6. The token \<^verbatim>\<open>experimental:nodejs_compat_v2\<close> is inert for the mode: two lists that
  differ only in occurrences of it give the same mode, in particular a list with the token
  inserted at any place, and a list with every occurrence removed. The returned
  \<^verbatim>\<open>hasExperimentalNodejsCompatV2Flag\<close> is true exactly when the token is a member of the
  list. The token \<^verbatim>\<open>no_experimental:nodejs_compat_v2\<close> changes nothing: two lists that
  differ only in occurrences of it give the same result.
\<close>

theorem experimental_flag_inert:
  "(set fs - {''experimental:nodejs_compat_v2''} = set fs' - {''experimental:nodejs_compat_v2''} \<longrightarrow>
      mode (getNodeCompat dArg fs opts h) = mode (getNodeCompat dArg fs' opts h)) \<and>
   mode (getNodeCompat dArg (xs @ ''experimental:nodejs_compat_v2'' # ys) opts h) =
     mode (getNodeCompat dArg (xs @ ys) opts h) \<and>
   mode (getNodeCompat dArg (removeAll ''experimental:nodejs_compat_v2'' fs) opts h) =
     mode (getNodeCompat dArg fs opts h) \<and>
   hasExperimentalNodejsCompatV2Flag (getNodeCompat dArg fs opts h) =
     (''experimental:nodejs_compat_v2'' \<in> set fs) \<and>
   (set fs - {''no_experimental:nodejs_compat_v2''} =
      set fs' - {''no_experimental:nodejs_compat_v2''} \<longrightarrow>
      getNodeCompat dArg fs opts h = getNodeCompat dArg fs' opts h) \<and>
   getNodeCompat dArg (xs @ ''no_experimental:nodejs_compat_v2'' # ys) opts h =
     getNodeCompat dArg (xs @ ys) opts h"
proof -
  have e: "mode (getNodeCompat dArg as opts h) = mode (getNodeCompat dArg bs opts h)"
    if "set as - {''experimental:nodejs_compat_v2''} = set bs - {''experimental:nodejs_compat_v2''}"
    for as bs
  proof -
    have m: "(t \<in> set as) = (t \<in> set bs)" if "t \<noteq> ''experimental:nodejs_compat_v2''" for t
      using that \<open>set as - _ = set bs - _\<close> by blast
    show ?thesis
      by (simp add: getNodeCompat_closed Let_def m)
  qed
  have n: "getNodeCompat dArg as opts h = getNodeCompat dArg bs opts h"
    if "set as - {''no_experimental:nodejs_compat_v2''} =
        set bs - {''no_experimental:nodejs_compat_v2''}"
    for as bs
  proof -
    have m: "(t \<in> set as) = (t \<in> set bs)" if "t \<noteq> ''no_experimental:nodejs_compat_v2''" for t
      using that \<open>set as - _ = set bs - _\<close> by blast
    show ?thesis
      by (simp add: getNodeCompat_closed Let_def m)
  qed
  have c1: "mode (getNodeCompat dArg (xs @ ''experimental:nodejs_compat_v2'' # ys) opts h) =
     mode (getNodeCompat dArg (xs @ ys) opts h)"
    by (rule e) auto
  have c2: "mode (getNodeCompat dArg (removeAll ''experimental:nodejs_compat_v2'' fs) opts h) =
     mode (getNodeCompat dArg fs opts h)"
    by (rule e) auto
  have c3: "hasExperimentalNodejsCompatV2Flag (getNodeCompat dArg fs opts h) =
     (''experimental:nodejs_compat_v2'' \<in> set fs)"
    by (simp add: getNodeCompat_closed Let_def)
  have c4: "getNodeCompat dArg (xs @ ''no_experimental:nodejs_compat_v2'' # ys) opts h =
     getNodeCompat dArg (xs @ ys) opts h"
    by (rule n) auto
  from e n c1 c2 c3 c4 show ?thesis by blast
qed

theorem experimental_flag_inert_witness:
  "set [''nodejs_als'', ''experimental:nodejs_compat_v2''] - {''experimental:nodejs_compat_v2''} =
     set [''nodejs_als''] - {''experimental:nodejs_compat_v2''} \<and>
   mode (getNodeCompat (Some ''2024-01-01'') [''nodejs_als'', ''experimental:nodejs_compat_v2'']
          None emptyHeap) = Als \<and>
   set [''no_experimental:nodejs_compat_v2'', ''nodejs_als''] - {''no_experimental:nodejs_compat_v2''} =
     set [''nodejs_als''] - {''no_experimental:nodejs_compat_v2''} \<and>
   hasExperimentalNodejsCompatV2Flag
     (getNodeCompat (Some ''2024-01-01'') [''no_experimental:nodejs_compat_v2'', ''nodejs_als'']
          None emptyHeap) = False"
proof -
  have a: "set [''nodejs_als'', ''experimental:nodejs_compat_v2''] - {''experimental:nodejs_compat_v2''} =
     set [''nodejs_als''] - {''experimental:nodejs_compat_v2''}"
    by auto
  have b: "set [''no_experimental:nodejs_compat_v2'', ''nodejs_als''] - {''no_experimental:nodejs_compat_v2''} =
     set [''nodejs_als''] - {''no_experimental:nodejs_compat_v2''}"
    by auto
  have r: "getNodeCompat (Some ''2024-01-01'') [''nodejs_als''] None emptyHeap =
      \<lparr>hasNodejsAlsFlag = True, hasNodejsCompatFlag = False, hasNodejsCompatV2Flag = False,
       hasExperimentalNodejsCompatV2Flag = False, mode = Als\<rparr>"
    by (simp add: getNodeCompat_closed)
  from experimental_flag_inert [of "[''nodejs_als'', ''experimental:nodejs_compat_v2'']"
      "[''nodejs_als'']" "Some ''2024-01-01''" None emptyHeap] a
  have m: "mode (getNodeCompat (Some ''2024-01-01'') [''nodejs_als'', ''experimental:nodejs_compat_v2'']
          None emptyHeap) = mode (getNodeCompat (Some ''2024-01-01'') [''nodejs_als''] None emptyHeap)"
    by blast
  from experimental_flag_inert [of "[''no_experimental:nodejs_compat_v2'', ''nodejs_als'']"
      "[''nodejs_als'']" "Some ''2024-01-01''" None emptyHeap] b
  have g: "getNodeCompat (Some ''2024-01-01'') [''no_experimental:nodejs_compat_v2'', ''nodejs_als'']
          None emptyHeap = getNodeCompat (Some ''2024-01-01'') [''nodejs_als''] None emptyHeap"
    by blast
  from a b show ?thesis
    by (simp only: m g r) simp
qed

text \<open>
  C7. The result depends on the flag list only through the set of its tokens: two lists
  with the same tokens give the same result (mode and all four flags). So a permutation of
  the list gives the same result, and so does a list with a token it already holds inserted
  once more at any place.
\<close>

theorem order_and_duplicates_irrelevant:
  "(set fs = set fs' \<longrightarrow> getNodeCompat dArg fs opts h = getNodeCompat dArg fs' opts h) \<and>
   (mset fs = mset fs' \<longrightarrow> getNodeCompat dArg fs opts h = getNodeCompat dArg fs' opts h) \<and>
   (t \<in> set (xs @ ys) \<longrightarrow>
      getNodeCompat dArg (xs @ t # ys) opts h = getNodeCompat dArg (xs @ ys) opts h)"
proof -
  have s: "getNodeCompat dArg as opts h = getNodeCompat dArg bs opts h" if "set as = set bs"
    for as bs
    by (simp add: getNodeCompat_closed that)
  have p: "getNodeCompat dArg fs opts h = getNodeCompat dArg fs' opts h" if "mset fs = mset fs'"
    by (rule s) (rule mset_eq_setD [OF that])
  have d: "getNodeCompat dArg (xs @ t # ys) opts h = getNodeCompat dArg (xs @ ys) opts h"
    if "t \<in> set (xs @ ys)"
    by (rule s) (use that in auto)
  from s p d show ?thesis by blast
qed

theorem order_and_duplicates_irrelevant_witness:
  "mset [''nodejs_als'', ''nodejs_compat''] = mset [''nodejs_compat'', ''nodejs_als''] \<and>
   ''nodejs_als'' \<in> set ([''nodejs_compat''] @ [''nodejs_als'']) \<and>
   getNodeCompat (Some ''2024-10-01'') [''nodejs_als'', ''nodejs_compat''] None emptyHeap =
     getNodeCompat (Some ''2024-10-01'') [''nodejs_compat'', ''nodejs_als''] None emptyHeap \<and>
   getNodeCompat (Some ''2024-10-01'') ([''nodejs_compat''] @ ''nodejs_als'' # [''nodejs_als''])
       None emptyHeap =
     getNodeCompat (Some ''2024-10-01'') ([''nodejs_compat''] @ [''nodejs_als'']) None emptyHeap \<and>
   mode (getNodeCompat (Some ''2024-10-01'') [''nodejs_compat'', ''nodejs_als''] None emptyHeap) = V1"
proof -
  have a: "mset [''nodejs_als'', ''nodejs_compat''] = mset [''nodejs_compat'', ''nodejs_als'']"
    by simp
  have b: "''nodejs_als'' \<in> set ([''nodejs_compat''] @ [''nodejs_als''])"
    by simp
  have c: "mode (getNodeCompat (Some ''2024-10-01'') [''nodejs_compat'', ''nodejs_als''] None emptyHeap) = V1"
    by (simp add: getNodeCompat_closed)
  from order_and_duplicates_irrelevant [of "[''nodejs_als'', ''nodejs_compat'']"
      "[''nodejs_compat'', ''nodejs_als'']" "Some ''2024-10-01''" None emptyHeap
      "''nodejs_als''" "[''nodejs_compat'']" "[''nodejs_als'']"] a b c
  show ?thesis by blast
qed

subsection \<open>Totality\<close>

text \<open>
  C8. \<^verbatim>\<open>getNodeCompat\<close> is a total function with no failure variant: for every date
  argument (any string, or absent), every list of strings and every option it returns a
  result, whose mode is one of \<^verbatim>\<open>"legacy"\<close>, \<^verbatim>\<open>"als"\<close>, \<^verbatim>\<open>"v1"\<close>, \<^verbatim>\<open>"v2"\<close>, \<^verbatim>\<open>null\<close>.
  Tokens other than the seven the code looks for are ignored: two lists that hold the same
  of these seven give the same result.
\<close>

theorem getNodeCompat_total:
  "(\<exists>r. getNodeCompat dArg fs opts h = r \<and> mode r \<in> {Legacy, Als, V1, V2, Null}) \<and>
   (set fs \<inter> {''nodejs_als'', ''no_nodejs_als'', ''nodejs_compat'', ''no_nodejs_compat'',
               ''nodejs_compat_v2'', ''no_nodejs_compat_v2'', ''experimental:nodejs_compat_v2''} =
    set fs' \<inter> {''nodejs_als'', ''no_nodejs_als'', ''nodejs_compat'', ''no_nodejs_compat'',
               ''nodejs_compat_v2'', ''no_nodejs_compat_v2'', ''experimental:nodejs_compat_v2''} \<longrightarrow>
      getNodeCompat dArg fs opts h = getNodeCompat dArg fs' opts h)"
proof -
  let ?K = "{''nodejs_als'', ''no_nodejs_als'', ''nodejs_compat'', ''no_nodejs_compat'',
             ''nodejs_compat_v2'', ''no_nodejs_compat_v2'', ''experimental:nodejs_compat_v2''}"
  have five: "mode (getNodeCompat dArg fs opts h) \<in> {Legacy, Als, V1, V2, Null}"
    by (cases "mode (getNodeCompat dArg fs opts h)") simp_all
  have ign: "getNodeCompat dArg fs opts h = getNodeCompat dArg fs' opts h"
    if eq: "set fs \<inter> ?K = set fs' \<inter> ?K"
  proof -
    have "(''nodejs_als'' \<in> set fs) = (''nodejs_als'' \<in> set fs')"
      "(''no_nodejs_als'' \<in> set fs) = (''no_nodejs_als'' \<in> set fs')"
      "(''nodejs_compat'' \<in> set fs) = (''nodejs_compat'' \<in> set fs')"
      "(''no_nodejs_compat'' \<in> set fs) = (''no_nodejs_compat'' \<in> set fs')"
      "(''nodejs_compat_v2'' \<in> set fs) = (''nodejs_compat_v2'' \<in> set fs')"
      "(''no_nodejs_compat_v2'' \<in> set fs) = (''no_nodejs_compat_v2'' \<in> set fs')"
      "(''experimental:nodejs_compat_v2'' \<in> set fs) = (''experimental:nodejs_compat_v2'' \<in> set fs')"
      by (rule Int_eq_memD [OF eq], simp)+
    then show ?thesis
      by (simp add: getNodeCompat_closed)
  qed
  show ?thesis
  proof (intro conjI impI)
    show "\<exists>r. getNodeCompat dArg fs opts h = r \<and> mode r \<in> {Legacy, Als, V1, V2, Null}"
      using five by (intro exI [of _ "getNodeCompat dArg fs opts h"] conjI refl)
  qed (rule ign)
qed

theorem getNodeCompat_total_witness:
  "set [''nodejs_compat'', ''node_compat'', ''''] \<inter>
     {''nodejs_als'', ''no_nodejs_als'', ''nodejs_compat'', ''no_nodejs_compat'',
      ''nodejs_compat_v2'', ''no_nodejs_compat_v2'', ''experimental:nodejs_compat_v2''} =
   set [''nodejs_compat''] \<inter>
     {''nodejs_als'', ''no_nodejs_als'', ''nodejs_compat'', ''no_nodejs_compat'',
      ''nodejs_compat_v2'', ''no_nodejs_compat_v2'', ''experimental:nodejs_compat_v2''} \<and>
   getNodeCompat (Some ''not a date'') [''nodejs_compat'', ''node_compat'', ''''] None emptyHeap =
     getNodeCompat (Some ''not a date'') [''nodejs_compat''] None emptyHeap \<and>
   mode (getNodeCompat (Some ''not a date'') [''nodejs_compat''] None emptyHeap) = V1"
proof -
  have a: "set [''nodejs_compat'', ''node_compat'', ''''] \<inter>
     {''nodejs_als'', ''no_nodejs_als'', ''nodejs_compat'', ''no_nodejs_compat'',
      ''nodejs_compat_v2'', ''no_nodejs_compat_v2'', ''experimental:nodejs_compat_v2''} =
   set [''nodejs_compat''] \<inter>
     {''nodejs_als'', ''no_nodejs_als'', ''nodejs_compat'', ''no_nodejs_compat'',
      ''nodejs_compat_v2'', ''no_nodejs_compat_v2'', ''experimental:nodejs_compat_v2''}"
    by simp
  have c: "mode (getNodeCompat (Some ''not a date'') [''nodejs_compat''] None emptyHeap) = V1"
    by (simp add: getNodeCompat_closed)
  have t: "getNodeCompat (Some ''not a date'') [''nodejs_compat'', ''node_compat'', ''''] None emptyHeap =
     getNodeCompat (Some ''not a date'') [''nodejs_compat''] None emptyHeap"
    by (rule conjunct2 [OF getNodeCompat_total, rule_format, OF a])
  from a t c show ?thesis by (intro conjI)
qed

subsection \<open>Flag objects against the pure definition\<close>

text \<open>
  C9. The flag evaluation through \<^verbatim>\<open>Flag\<close> objects in the store, one of them updated by
  \<^verbatim>\<open>impliedByAfterDate\<close>, computes the two-step pure definition \<open>resolvedFlag\<close>, from any
  store it starts in: each of the three flags is \<open>resolvedFlag\<close> of its name, and
  \<^verbatim>\<open>nodejs_als\<close> and \<^verbatim>\<open>nodejs_compat\<close> are their base values, implied by nothing.
\<close>

theorem flag_objects_compute_resolvedFlag:
  "hasNodejsAlsFlag (computeWorkerdCompatibilityFlags fs d h) = resolvedFlag d fs ''nodejs_als'' \<and>
   hasNodejsCompatFlag (computeWorkerdCompatibilityFlags fs d h) =
     resolvedFlag d fs ''nodejs_compat'' \<and>
   hasNodejsCompatV2Flag (computeWorkerdCompatibilityFlags fs d h) =
     resolvedFlag d fs ''nodejs_compat_v2'' \<and>
   hasNodejsAlsFlag (computeWorkerdCompatibilityFlags fs d h) = baseValue fs ''nodejs_als'' \<and>
   hasNodejsCompatFlag (computeWorkerdCompatibilityFlags fs d h) = baseValue fs ''nodejs_compat''"
  by (simp add: computeWorkerdCompatibilityFlags_closed resolvedFlag_def baseValue_def)

theorem flag_objects_compute_resolvedFlag_witness:
  "resolvedFlag ''2024-09-23'' [''nodejs_compat'', ''no_nodejs_als'', ''nodejs_als''] ''nodejs_compat_v2'' \<and>
   hasNodejsCompatV2Flag (computeWorkerdCompatibilityFlags
      [''nodejs_compat'', ''no_nodejs_als'', ''nodejs_als''] ''2024-09-23'' emptyHeap) \<and>
   \<not> hasNodejsAlsFlag (computeWorkerdCompatibilityFlags
      [''nodejs_compat'', ''no_nodejs_als'', ''nodejs_als''] ''2024-09-23'' emptyHeap)"
proof -
  have a: "resolvedFlag ''2024-09-23'' [''nodejs_compat'', ''no_nodejs_als'', ''nodejs_als'']
      ''nodejs_compat_v2''"
    by (simp add: resolvedFlag_def baseValue_def)
  have b: "\<not> baseValue [''nodejs_compat'', ''no_nodejs_als'', ''nodejs_als''] ''nodejs_als''"
    by (simp add: baseValue_def)
  from flag_objects_compute_resolvedFlag [of "[''nodejs_compat'', ''no_nodejs_als'', ''nodejs_als'']"
      "''2024-09-23''" emptyHeap] a b
  show ?thesis by blast
qed

subsection \<open>Returned flags and the mode\<close>

text \<open>
  C10. The returned flags are not made exclusive with the mode: when the list holds
  \<^verbatim>\<open>nodejs_compat\<close> without its negation and the mode is \<^verbatim>\<open>"v2"\<close>, the returned
  \<^verbatim>\<open>hasNodejsCompatFlag\<close> and \<^verbatim>\<open>hasNodejsCompatV2Flag\<close> are both true; and there is such a
  result, on the threshold date with the list \<^verbatim>\<open>["nodejs_compat"]\<close>.
\<close>

theorem flags_not_exclusive_with_mode:
  "(''nodejs_compat'' \<in> set fs \<and> ''no_nodejs_compat'' \<notin> set fs \<and>
    mode (getNodeCompat dArg fs opts h) = V2 \<longrightarrow>
      hasNodejsCompatFlag (getNodeCompat dArg fs opts h) \<and>
      hasNodejsCompatV2Flag (getNodeCompat dArg fs opts h)) \<and>
   (mode (getNodeCompat (Some ''2024-09-23'') [''nodejs_compat''] opts h) = V2 \<and>
    hasNodejsCompatFlag (getNodeCompat (Some ''2024-09-23'') [''nodejs_compat''] opts h) \<and>
    hasNodejsCompatV2Flag (getNodeCompat (Some ''2024-09-23'') [''nodejs_compat''] opts h))"
  by (simp add: getNodeCompat_closed Let_def)

theorem flags_not_exclusive_with_mode_witness:
  "''nodejs_compat'' \<in> set [''nodejs_als'', ''nodejs_compat''] \<and>
   ''no_nodejs_compat'' \<notin> set [''nodejs_als'', ''nodejs_compat''] \<and>
   mode (getNodeCompat (Some ''2024-09-23'') [''nodejs_als'', ''nodejs_compat''] None emptyHeap) = V2 \<and>
   hasNodejsCompatFlag
     (getNodeCompat (Some ''2024-09-23'') [''nodejs_als'', ''nodejs_compat''] None emptyHeap) \<and>
   hasNodejsCompatV2Flag
     (getNodeCompat (Some ''2024-09-23'') [''nodejs_als'', ''nodejs_compat''] None emptyHeap)"
proof -
  have a: "''nodejs_compat'' \<in> set [''nodejs_als'', ''nodejs_compat''] \<and>
   ''no_nodejs_compat'' \<notin> set [''nodejs_als'', ''nodejs_compat'']"
    by simp
  have m: "mode (getNodeCompat (Some ''2024-09-23'') [''nodejs_als'', ''nodejs_compat'']
      None emptyHeap) = V2"
    by (simp add: getNodeCompat_closed)
  from flags_not_exclusive_with_mode [of "[''nodejs_als'', ''nodejs_compat'']"
      "Some ''2024-09-23''" None emptyHeap] a m
  show ?thesis by blast
qed

end
